theory Spec2Isabelle
  imports Complex_Main "HOL-Library.Word" "HOL-Library.Sublist" "HOL-Library.Multiset"
begin

section \<open>JavaScript strings and JSON values\<close>

text \<open>
  A JavaScript string is a sequence of UTF-16 code units. String literals of the
  source are ASCII and are written \<open>lit ''...''\<close>.
\<close>

type_synonym code_unit = "16 word"
type_synonym js_string = "code_unit list"

definition lit :: "string \<Rightarrow> js_string" where
  "lit s = map (\<lambda>c. word_of_nat (of_char c)) s"

text \<open>Decimal rendering of a non-negative integer, as a template literal prints it.\<close>

fun show_nat :: "nat \<Rightarrow> js_string" where
  "show_nat n =
     (if n < 10 then [word_of_nat (48 + n)]
      else show_nat (n div 10) @ [word_of_nat (48 + n mod 10)])"

declare show_nat.simps [simp del]

datatype json =
    JNull
  | JBool bool
  | JNum real
  | JStr js_string
  | JArr "json list"
  | JObj "(js_string \<times> json) list"

subsection \<open>JavaScript values and JSON.stringify\<close>

text \<open>
  The plain data a caller can pass where the source says \<open>any\<close> or names an interface
  (types are erased at run time): an object is the list of its own properties, in the
  order \<open>JSON.stringify\<close> visits them.
\<close>

datatype js_number = Finite real | NaN | PosInfinity | NegInfinity

datatype js_value =
    JSUndefined
  | JSNull
  | JSBool bool
  | JSNum js_number
  | JSStr js_string
  | JSArr "js_value list"
  | JSObj "(js_string \<times> js_value) list"

text \<open>
  The host function \<open>JSON.stringify\<close> on such data, as the value its text denotes:
  \<open>undefined\<close> has no text (\<open>None\<close>), a property whose value has none is left
  out, an array element that has none is written \<open>null\<close>, and so is a number that is
  not finite. The properties keep their order.
\<close>

fun JSON_stringify :: "js_value \<Rightarrow> json option"
  and stringify_elements :: "js_value list \<Rightarrow> json list"
  and stringify_properties :: "(js_string \<times> js_value) list \<Rightarrow> (js_string \<times> json) list"
  where
  "JSON_stringify JSUndefined = None"
| "JSON_stringify JSNull = Some JNull"
| "JSON_stringify (JSBool b) = Some (JBool b)"
| "JSON_stringify (JSNum n) = Some (case n of Finite x \<Rightarrow> JNum x | _ \<Rightarrow> JNull)"
| "JSON_stringify (JSStr s) = Some (JStr s)"
| "JSON_stringify (JSArr xs) = Some (JArr (stringify_elements xs))"
| "JSON_stringify (JSObj kvs) = Some (JObj (stringify_properties kvs))"
| "stringify_elements [] = []"
| "stringify_elements (x # xs) =
     (case JSON_stringify x of None \<Rightarrow> JNull | Some j \<Rightarrow> j) # stringify_elements xs"
| "stringify_properties [] = []"
| "stringify_properties (kv # kvs) =
     (case JSON_stringify (snd kv) of
        None \<Rightarrow> stringify_properties kvs
      | Some j \<Rightarrow> (fst kv, j) # stringify_properties kvs)"

text \<open>Reading a property of an object: \<open>data.name\<close>.\<close>

fun property :: "js_string \<Rightarrow> js_value \<Rightarrow> js_value" where
  "property k (JSObj kvs) = (case map_of kvs k of None \<Rightarrow> JSUndefined | Some v \<Rightarrow> v)"
| "property k v = JSUndefined"

subsection \<open>encodeURIComponent\<close>

text \<open>
  The host function \<open>encodeURIComponent\<close> (ECMAScript \<open>Encode\<close> with the unreserved
  set of letters, digits and \<open>- _ . ! ~ * ' ( )\<close>): an unreserved code unit is copied,
  any other code point is written as the percent-escaped octets of its UTF-8 encoding,
  and an unpaired surrogate raises \<open>URIError\<close> (here \<open>None\<close>).
\<close>

definition unescaped :: "code_unit \<Rightarrow> bool" where
  "unescaped c =
     (let n = unat c in
        (65 \<le> n \<and> n \<le> 90) \<or> (97 \<le> n \<and> n \<le> 122) \<or> (48 \<le> n \<and> n \<le> 57)
        \<or> n \<in> {45, 95, 46, 33, 126, 42, 39, 40, 41})"

definition is_lead :: "code_unit \<Rightarrow> bool" where
  "is_lead c = (55296 \<le> unat c \<and> unat c \<le> 56319)"

definition is_trail :: "code_unit \<Rightarrow> bool" where
  "is_trail c = (56320 \<le> unat c \<and> unat c \<le> 57343)"

definition pair_code_point :: "code_unit \<Rightarrow> code_unit \<Rightarrow> nat" where
  "pair_code_point hi lo = (unat hi - 55296) * 1024 + (unat lo - 56320) + 65536"

definition utf8 :: "nat \<Rightarrow> nat list" where
  "utf8 cp =
     (if cp < 128 then [cp]
      else if cp < 2048 then [192 + cp div 64, 128 + cp mod 64]
      else if cp < 65536 then [224 + cp div 4096, 128 + (cp div 64) mod 64, 128 + cp mod 64]
      else [240 + cp div 262144, 128 + (cp div 4096) mod 64, 128 + (cp div 64) mod 64,
            128 + cp mod 64])"

definition hex_digit :: "nat \<Rightarrow> code_unit" where
  "hex_digit n = (if n < 10 then word_of_nat (48 + n) else word_of_nat (55 + n))"

definition percent_octets :: "nat list \<Rightarrow> js_string" where
  "percent_octets os = concat (map (\<lambda>b. [37, hex_digit (b div 16), hex_digit (b mod 16)]) os)"

fun encodeURIComponent :: "js_string \<Rightarrow> js_string option" where
  "encodeURIComponent [] = Some []"
| "encodeURIComponent [c] =
     (if unescaped c then Some [c]
      else if is_lead c \<or> is_trail c then None
      else Some (percent_octets (utf8 (unat c))))"
| "encodeURIComponent (c # d # ds) =
     (if unescaped c then map_option ((#) c) (encodeURIComponent (d # ds))
      else if is_lead c then
        (if is_trail d
         then map_option ((@) (percent_octets (utf8 (pair_code_point c d)))) (encodeURIComponent ds)
         else None)
      else if is_trail c then None
      else map_option ((@) (percent_octets (utf8 (unat c)))) (encodeURIComponent (d # ds)))"

text \<open>
  The host function \<open>String.prototype.isWellFormed\<close>: the string has no unpaired
  surrogate.
\<close>

fun isWellFormed :: "js_string \<Rightarrow> bool" where
  "isWellFormed [] = True"
| "isWellFormed [c] = (\<not> is_lead c \<and> \<not> is_trail c)"
| "isWellFormed (c # d # ds) =
     (if is_lead c then is_trail d \<and> isWellFormed ds
      else \<not> is_trail c \<and> isWellFormed (d # ds))"

section \<open>The fetch interface\<close>

datatype http_method = GET | POST | PUT | DELETE

datatype request_credentials = Include

datatype blob = Blob (blob_name: js_string) (blob_bytes: "8 word list")

datatype request_body =
    JsonText json \<comment> \<open>the text \<open>JSON.stringify\<close> gives for this value\<close>
  | FormData "(js_string \<times> blob) list"

text \<open>
  The second argument of \<open>fetch\<close>. A property the source leaves out is \<open>None\<close>
  (for the method, \<open>fetch\<close> then sends a GET).
\<close>

record request =
  url :: js_string
  method_opt :: "http_method option"
  headers :: "(js_string \<times> js_string) list"
  credentials :: "request_credentials option"
  body :: "request_body option"

definition http_method_of :: "request \<Rightarrow> http_method" where
  "http_method_of rq = (case method_opt rq of None \<Rightarrow> GET | Some m \<Rightarrow> m)"

text \<open>
  A response: its status line, and what \<open>res.json()\<close> parses from its body
  (\<open>None\<close> when the body is not JSON text, where \<open>res.json()\<close> rejects).
\<close>

record response =
  status :: nat
  statusText :: js_string
  parsed :: "json option"

definition ok :: "response \<Rightarrow> bool" where
  "ok res = (200 \<le> status res \<and> status res \<le> 299)"

datatype js_error =
    NetworkFailure \<comment> \<open>\<open>fetch\<close> rejects: no response arrived\<close>
  | SyntaxError \<comment> \<open>\<open>res.json()\<close> rejects\<close>
  | URIError \<comment> \<open>\<open>encodeURIComponent\<close> on an unpaired surrogate\<close>
  | Error js_string \<comment> \<open>\<open>throw new Error(message)\<close>\<close>

text \<open>The network: for each request, the response that arrives, if any.\<close>

type_synonym server = "request \<Rightarrow> response option"

text \<open>The browser state the client touches: \<open>localStorage\<close> and the requests sent so far.\<close>

record world =
  localStorage :: "js_string \<rightharpoonup> js_string"
  sent :: "request list"

type_synonym 'a promise = "(js_error + 'a) \<times> world"

definition fetch :: "server \<Rightarrow> request \<Rightarrow> world \<Rightarrow> response promise" where
  "fetch srv rq w =
     ((case srv rq of None \<Rightarrow> Inl NetworkFailure | Some res \<Rightarrow> Inr res),
      w\<lparr>sent := sent w @ [rq]\<rparr>)"

definition res_json :: "response \<Rightarrow> js_error + json" where
  "res_json res = (case parsed res of None \<Rightarrow> Inl SyntaxError | Some j \<Rightarrow> Inr j)"

text \<open>\<open>const res = await fetch(...); return res.json();\<close>\<close>

definition return_json :: "response promise \<Rightarrow> json promise" where
  "return_json p =
     (case p of (Inl e, w) \<Rightarrow> (Inl e, w) | (Inr res, w) \<Rightarrow> (res_json res, w))"

text \<open>\<open>if (!res.ok) throw new Error(`HTTP ${res.status}: ${res.statusText}`);\<close>\<close>

definition http_error :: "response \<Rightarrow> js_error" where
  "http_error res =
     Error (lit ''HTTP '' @ show_nat (status res) @ lit '': '' @ statusText res)"

definition return_json_if_ok :: "response promise \<Rightarrow> json promise" where
  "return_json_if_ok p =
     (case p of
        (Inl e, w) \<Rightarrow> (Inl e, w)
      | (Inr res, w) \<Rightarrow> if \<not> ok res then (Inl (http_error res), w) else (res_json res, w))"

section \<open>The API client\<close>



text \<open>
  The interface \<open>DiagnosisRequest\<close>: an object whose properties \<open>patient_name\<close>,
  \<open>patient_email\<close>, \<open>gender\<close> and \<open>symptoms\<close> are strings, whose \<open>age\<close> is a
  number, and whose \<open>medical_history\<close> is a string when it is there. The object may
  have its properties in any order, and others beside them.
\<close>

fun is_string :: "js_value \<Rightarrow> bool" where
  "is_string (JSStr s) = True"
| "is_string v = False"

fun is_number :: "js_value \<Rightarrow> bool" where
  "is_number (JSNum n) = True"
| "is_number v = False"

definition is_DiagnosisRequest :: "js_value \<Rightarrow> bool" where
  "is_DiagnosisRequest data =
     (case data of
        JSObj kvs \<Rightarrow>
          is_string (property (lit ''patient_name'') data)
          \<and> is_string (property (lit ''patient_email'') data)
          \<and> is_number (property (lit ''age'') data)
          \<and> is_string (property (lit ''gender'') data)
          \<and> is_string (property (lit ''symptoms'') data)
          \<and> (property (lit ''medical_history'') data = JSUndefined
               \<or> is_string (property (lit ''medical_history'') data))
      | _ \<Rightarrow> False)"


definition getHeaders :: "(js_string \<times> js_string) list" where
  "getHeaders = [(lit ''Content-Type'', lit ''application/json'')]"

definition getOptions :: "bool \<Rightarrow> request_credentials option" where
  "getOptions includeCredentials = (if includeCredentials then Some Include else None)"

subsection \<open>Auth endpoints\<close>



definition success_true :: json where
  "success_true = JObj [(lit ''success'', JBool True)]"

definition logout :: "js_string \<Rightarrow> server \<Rightarrow> world \<Rightarrow> json promise" where
  "logout API_URL srv w =
     (Inr success_true, w\<lparr>localStorage := (localStorage w)(lit ''token'' := None)\<rparr>)"

definition verifyEmail :: "js_string \<Rightarrow> server \<Rightarrow> js_string \<Rightarrow> world \<Rightarrow> json promise" where
  "verifyEmail API_URL srv token w = (Inr success_true, w)"

subsection \<open>User endpoints\<close>



subsection \<open>Diagnosis endpoints\<close>

definition createDiagnosis ::
  "js_string \<Rightarrow> server \<Rightarrow> js_value \<Rightarrow> world \<Rightarrow> json promise" where
  "createDiagnosis API_URL srv data w =
     return_json_if_ok (fetch srv
       \<lparr>url = API_URL @ lit ''/api/v1/diagnosis/start'',
        method_opt = Some POST,
        headers = getHeaders,
        credentials = Some Include,
        body = map_option JsonText (JSON_stringify data)\<rparr> w)"



subsection \<open>File upload endpoints\<close>



text \<open>\<open>fetch(url)\<close> with no second argument.\<close>

definition plain_get :: "js_string \<Rightarrow> request" where
  "plain_get u = \<lparr>url = u, method_opt = None, headers = [], credentials = None, body = None\<rparr>"


subsection \<open>Diagnosis management endpoints\<close>


text \<open>The parameter \<open>format\<close> has the default \<open>'json'\<close>: \<open>None\<close> is a call without it.\<close>

definition exportDiagnosis ::
  "js_string \<Rightarrow> server \<Rightarrow> js_string \<Rightarrow> js_string option \<Rightarrow> world \<Rightarrow> json promise" where
  "exportDiagnosis API_URL srv sessionId format_opt w =
     (let format = (case format_opt of None \<Rightarrow> lit ''json'' | Some f \<Rightarrow> f) in
      return_json (fetch srv
        \<lparr>url = API_URL @ lit ''/api/v1/diagnosis/'' @ sessionId @ lit ''/export'',
         method_opt = Some POST,
         headers = getHeaders,
         credentials = Some Include,
         body = Some (JsonText (JObj [(lit ''format'', JStr format)]))\<rparr> w))"



subsection \<open>Knowledge graph endpoints\<close>



definition findPath ::
  "js_string \<Rightarrow> server \<Rightarrow> js_string \<Rightarrow> js_string \<Rightarrow> world \<Rightarrow> json promise" where
  "findPath API_URL srv sourceNode targetNode w =
     (case encodeURIComponent sourceNode of
        None \<Rightarrow> (Inl URIError, w)
      | Some s \<Rightarrow>
          (case encodeURIComponent targetNode of
             None \<Rightarrow> (Inl URIError, w)
           | Some t \<Rightarrow>
               return_json (fetch srv
                 (plain_get (API_URL @ lit ''/api/v1/kg/path/'' @ s @ lit ''/'' @ t)) w)))"

definition getDiseaseInfo ::
  "js_string \<Rightarrow> server \<Rightarrow> js_string \<Rightarrow> world \<Rightarrow> json promise" where
  "getDiseaseInfo API_URL srv diseaseName w =
     (case encodeURIComponent diseaseName of
        None \<Rightarrow> (Inl URIError, w)
      | Some d \<Rightarrow>
          return_json (fetch srv (plain_get (API_URL @ lit ''/api/v1/kg/disease/'' @ d)) w))"

definition getSymptomRelations ::
  "js_string \<Rightarrow> server \<Rightarrow> js_string \<Rightarrow> world \<Rightarrow> json promise" where
  "getSymptomRelations API_URL srv symptom w =
     (case encodeURIComponent symptom of
        None \<Rightarrow> (Inl URIError, w)
      | Some s \<Rightarrow>
          return_json (fetch srv (plain_get (API_URL @ lit ''/api/v1/kg/symptoms/'' @ s)) w))"

definition getKGStats :: "js_string \<Rightarrow> server \<Rightarrow> world \<Rightarrow> json promise" where
  "getKGStats API_URL srv w =
     return_json (fetch srv (plain_get (API_URL @ lit ''/api/v1/kg/stats'')) w)"


subsection \<open>Patient endpoints\<close>




subsection \<open>Calls\<close>





section \<open>The interface the specification describes\<close>

text \<open>The request body the spec's Submit operation describes.\<close>

fun is_JStr :: "json \<Rightarrow> bool" where
  "is_JStr (JStr s) = True"
| "is_JStr j = False"

definition spec_PatientInput :: "json \<Rightarrow> bool" where
  "spec_PatientInput j =
     (case j of
        JObj kvs \<Rightarrow>
          (case (map_of kvs (lit ''complaints''), map_of kvs (lit ''symptoms''),
                 map_of kvs (lit ''vitals''), map_of kvs (lit ''top_k'')) of
             (Some (JArr cs), Some (JArr ss), Some (JObj vs), Some (JNum k)) \<Rightarrow>
               list_all is_JStr cs \<and> list_all is_JStr ss \<and> 0 < k \<and> k \<in> \<int>
           | _ \<Rightarrow> False)
      | _ \<Rightarrow> False)"


section \<open>The diagnosis pipeline\<close>

text \<open>
  The pipeline and its session lifecycle run in the backend, whose code is not among the
  sources; the sources hold its client and its documentation. The definitions of this
  section follow the specification, sections 3 to 7.
\<close>

subsection \<open>Data model\<close>

datatype session_state = Pending | Processing | Completed | Failed

record PatientInput =
  complaints :: "js_string list"
  input_symptoms :: "js_string list"
  vitals :: "(js_string \<times> json) list"
  history :: "js_string option"
  top_k :: nat

record diagnosis_entry =
  condition :: js_string
  confidence :: real
  description :: js_string
  icd10 :: js_string

record recommended_action =
  action_id :: js_string
  action_text :: js_string
  priority :: js_string
  category :: js_string

record follow_up_question =
  question_id :: js_string
  question_text :: js_string

record similar_case =
  caseId :: js_string
  similarity :: real
  case_diagnosis :: js_string
  outcome :: js_string

record DiagnosisResult =
  differentialDiagnosis :: "diagnosis_entry list"
  recommendedActions :: "recommended_action list"
  followUpQuestions :: "follow_up_question list"
  similarCases :: "similar_case list"

record DiagnosisSession =
  session_id :: nat
  state :: session_state
  created_at :: nat
  updated_at :: nat
  patient_ref :: js_string
  input :: PatientInput
  error_detail :: "js_string option"
  session_result :: "DiagnosisResult option"
  degraded :: bool

subsection \<open>Session Manager\<close>

datatype sm_error = SessionNotFound | InvalidStateTransition

text \<open>The store handle: the session table and the next unused identity.\<close>

record store =
  sessions :: "nat \<rightharpoonup> DiagnosisSession"
  next_id :: nat

definition empty_store :: store where
  "empty_store = \<lparr>sessions = Map.empty, next_id = 0\<rparr>"

text \<open>
  Modelled from the spec: the Session Manager's state machine (section 4.1),
  \<open>pending -> processing -> {completed, failed}\<close>.
\<close>

fun allowed :: "session_state \<Rightarrow> session_state \<Rightarrow> bool" where
  "allowed Pending Processing = True"
| "allowed Processing Completed = True"
| "allowed Processing Failed = True"
| "allowed s t = False"

text \<open>What a transition carries: nothing, a result with its degraded flag, or an error.\<close>

datatype transition_payload =
    NoPayload
  | WithResult DiagnosisResult bool
  | WithError js_string

fun apply_payload :: "transition_payload \<Rightarrow> DiagnosisSession \<Rightarrow> DiagnosisSession" where
  "apply_payload NoPayload s = s"
| "apply_payload (WithResult r d) s = s\<lparr>session_result := Some r, degraded := d\<rparr>"
| "apply_payload (WithError e) s = s\<lparr>error_detail := Some e\<rparr>"

text \<open>
  Modelled from the spec: \<open>create(patientInput) -> sessionId\<close> of the Session Manager
  (section 4.1); a new session is pending (section 2).
\<close>

definition create :: "store \<Rightarrow> nat \<Rightarrow> js_string \<Rightarrow> PatientInput \<Rightarrow> nat \<times> store" where
  "create st now patient inp =
     (next_id st,
      st\<lparr>sessions := (sessions st)(next_id st \<mapsto>
            \<lparr>session_id = next_id st, state = Pending, created_at = now, updated_at = now,
             patient_ref = patient, input = inp, error_detail = None,
             session_result = None, degraded = False\<rparr>),
         next_id := Suc (next_id st)\<rparr>)"

text \<open>
  Modelled from the spec: \<open>transition(sessionId, newState, result|error)\<close> of the Session
  Manager (section 4.1). A transition outside the state machine fails with
  \<open>InvalidStateTransition\<close> and the store is returned as it was. The spec names
  \<open>SessionNotFound\<close> for \<open>get\<close> on an unknown id; the same is taken for \<open>transition\<close>
  and \<open>delete\<close>.
\<close>

definition transition ::
  "store \<Rightarrow> nat \<Rightarrow> nat \<Rightarrow> session_state \<Rightarrow> transition_payload \<Rightarrow> (sm_error + unit) \<times> store"
  where
  "transition st now sid new pl =
     (case sessions st sid of
        None \<Rightarrow> (Inl SessionNotFound, st)
      | Some s \<Rightarrow>
          if allowed (state s) new
          then (Inr (),
                st\<lparr>sessions := (sessions st)(sid \<mapsto>
                      apply_payload pl (s\<lparr>state := new, updated_at := now\<rparr>))\<rparr>)
          else (Inl InvalidStateTransition, st))"

text \<open>Modelled from the spec: \<open>get(sessionId)\<close> and \<open>delete(sessionId)\<close> (section 4.1).\<close>

definition get_session :: "store \<Rightarrow> nat \<Rightarrow> sm_error + DiagnosisSession" where
  "get_session st sid =
     (case sessions st sid of None \<Rightarrow> Inl SessionNotFound | Some s \<Rightarrow> Inr s)"

definition delete_session :: "store \<Rightarrow> nat \<Rightarrow> (sm_error + unit) \<times> store" where
  "delete_session st sid =
     (case sessions st sid of
        None \<Rightarrow> (Inl SessionNotFound, st)
      | Some s \<Rightarrow> (Inr (), st\<lparr>sessions := (sessions st)(sid := None)\<rparr>))"

text \<open>
  A run of the Session Manager: any sequence of its operations, each on the store the one
  before left. \<open>observed sid st ops\<close> lists the state of session \<open>sid\<close> before the
  run and after each operation, while the session exists; \<open>state_sequence\<close> merges the
  observations that repeat the state before them.
\<close>

datatype sm_op =
    OpCreate nat js_string PatientInput
  | OpTransition nat nat session_state transition_payload
  | OpDelete nat

fun apply_op :: "store \<Rightarrow> sm_op \<Rightarrow> store" where
  "apply_op st (OpCreate now patient inp) = snd (create st now patient inp)"
| "apply_op st (OpTransition now sid new pl) = snd (transition st now sid new pl)"
| "apply_op st (OpDelete sid) = snd (delete_session st sid)"

definition current :: "nat \<Rightarrow> store \<Rightarrow> session_state list" where
  "current sid st = (case sessions st sid of None \<Rightarrow> [] | Some s \<Rightarrow> [state s])"

fun observed :: "nat \<Rightarrow> store \<Rightarrow> sm_op list \<Rightarrow> session_state list" where
  "observed sid st [] = current sid st"
| "observed sid st (x # xs) = current sid st @ observed sid (apply_op st x) xs"

definition state_sequence :: "nat \<Rightarrow> store \<Rightarrow> sm_op list \<Rightarrow> session_state list" where
  "state_sequence sid st ops = remdups_adj (observed sid st ops)"

text \<open>In a store the Session Manager made, every session has an identity already handed out.\<close>

definition wf_store :: "store \<Rightarrow> bool" where
  "wf_store st = (\<forall>k. sessions st k \<noteq> None \<longrightarrow> k < next_id st)"

text \<open>One observation to the next: the same state, or a step of the state machine.\<close>

definition step_ok :: "session_state \<Rightarrow> session_state \<Rightarrow> bool" where
  "step_ok a b = (a = b \<or> allowed a b)"

subsection \<open>Result Aggregator\<close>

datatype aggregator_error = MalformedPayload

text \<open>Reading a raw payload: a property of an object, with the type it must have.\<close>

fun field :: "js_string \<Rightarrow> json \<Rightarrow> json option" where
  "field k (JObj kvs) = map_of kvs k"
| "field k j = None"

definition str_field :: "js_string \<Rightarrow> json \<Rightarrow> js_string option" where
  "str_field k j = (case field k j of Some (JStr s) \<Rightarrow> Some s | _ \<Rightarrow> None)"

definition num_field :: "js_string \<Rightarrow> json \<Rightarrow> real option" where
  "num_field k j = (case field k j of Some (JNum x) \<Rightarrow> Some x | _ \<Rightarrow> None)"

definition arr_field :: "js_string \<Rightarrow> json \<Rightarrow> json list" where
  "arr_field k j = (case field k j of Some (JArr xs) \<Rightarrow> xs | _ \<Rightarrow> [])"

text \<open>Modelled from the spec: the Result Aggregator clamps confidence and similarity to [0,100].\<close>

definition clamp :: "real \<Rightarrow> real" where
  "clamp x = max 0 (min 100 x)"

text \<open>
  Modelled from the spec: the Result Aggregator validates field presence and types
  (section 4.6) against the canonical shape of section 6. An entry with a field missing
  or of another type is malformed (\<open>None\<close>); an action or a question may lack its id.
\<close>

definition parse_diagnosis :: "json \<Rightarrow> diagnosis_entry option" where
  "parse_diagnosis j =
     (case (str_field (lit ''condition'') j, num_field (lit ''confidence'') j,
            str_field (lit ''description'') j, str_field (lit ''icd10'') j) of
        (Some c, Some x, Some d, Some i) \<Rightarrow>
          Some \<lparr>condition = c, confidence = clamp x, description = d, icd10 = i\<rparr>
      | _ \<Rightarrow> None)"

definition parse_case :: "json \<Rightarrow> similar_case option" where
  "parse_case j =
     (case (str_field (lit ''caseId'') j, num_field (lit ''similarity'') j,
            str_field (lit ''diagnosis'') j, str_field (lit ''outcome'') j) of
        (Some c, Some x, Some d, Some out) \<Rightarrow>
          Some \<lparr>caseId = c, similarity = clamp x, case_diagnosis = d, outcome = out\<rparr>
      | _ \<Rightarrow> None)"

text \<open>
  Modelled from the spec: the Result Aggregator assigns synthetic ids to actions and
  questions missing one. The synthetic id is a letter and the entry's position in the raw
  sequence, counted from 1 (\<open>a1\<close>, \<open>q1\<close>, as the ids of the documented result).
\<close>

definition synthetic_id :: "string \<Rightarrow> nat \<Rightarrow> js_string" where
  "synthetic_id letter i = lit letter @ show_nat i"

definition parse_action :: "nat \<times> json \<Rightarrow> recommended_action option" where
  "parse_action p =
     (case p of (i, j) \<Rightarrow>
        (case (str_field (lit ''text'') j, str_field (lit ''priority'') j,
               str_field (lit ''category'') j) of
           (Some t, Some pr, Some c) \<Rightarrow>
             Some \<lparr>action_id = (case str_field (lit ''id'') j of
                                 Some x \<Rightarrow> x | None \<Rightarrow> synthetic_id ''a'' i),
                   action_text = t, priority = pr, category = c\<rparr>
         | _ \<Rightarrow> None))"

definition parse_question :: "nat \<times> json \<Rightarrow> follow_up_question option" where
  "parse_question p =
     (case p of (i, j) \<Rightarrow>
        (case str_field (lit ''text'') j of
           Some t \<Rightarrow>
             Some \<lparr>question_id = (case str_field (lit ''id'') j of
                                   Some x \<Rightarrow> x | None \<Rightarrow> synthetic_id ''q'' i),
                   question_text = t\<rparr>
         | None \<Rightarrow> None))"

text \<open>The entries of a sequence with their positions, counted from 1.\<close>

definition numbered :: "'a list \<Rightarrow> (nat \<times> 'a) list" where
  "numbered xs = zip [1 ..< Suc (length xs)] xs"

text \<open>The raw diagnosis entries of a payload.\<close>

definition raw_diagnoses :: "json \<Rightarrow> json list" where
  "raw_diagnoses raw = arr_field (lit ''differentialDiagnosis'') raw"

text \<open>
  Modelled from the spec: \<open>normalize(rawPayload) -> DiagnosisResult\<close> of the Result
  Aggregator (section 4.6). Malformed entries are dropped, the diagnoses are sorted by
  descending confidence (entries of equal confidence keep their order), and the call fails
  with \<open>MalformedPayload\<close> only when no diagnosis entry is usable.
\<close>

definition normalize :: "json \<Rightarrow> aggregator_error + DiagnosisResult" where
  "normalize raw =
     (let ds = List.map_filter parse_diagnosis (raw_diagnoses raw) in
      if ds = [] then Inl MalformedPayload
      else Inr
        \<lparr>differentialDiagnosis = sort_key (\<lambda>d. - confidence d) ds,
         recommendedActions =
           List.map_filter parse_action (numbered (arr_field (lit ''recommendedActions'') raw)),
         followUpQuestions =
           List.map_filter parse_question (numbered (arr_field (lit ''followUpQuestions'') raw)),
         similarCases = List.map_filter parse_case (arr_field (lit ''similarCases'') raw)\<rparr>)"

text \<open>
  Modelled from the spec: the canonical shape of a result (sections 3 and 6), said of the
  raw entries themselves. An entry is usable when each field of the shape is there with
  its type; the id of an action or a question may be missing. \<open>diagnosis_of\<close>,
  \<open>case_of\<close>, \<open>action_of\<close> and \<open>question_of\<close> are what a usable entry stands for
  in the result: its fields, the score clamped, the id it has or the synthetic one for
  its position.
\<close>

fun is_text :: "json option \<Rightarrow> bool" where
  "is_text (Some (JStr s)) = True"
| "is_text v = False"

fun is_num :: "json option \<Rightarrow> bool" where
  "is_num (Some (JNum x)) = True"
| "is_num v = False"

definition text_of :: "js_string \<Rightarrow> json \<Rightarrow> js_string" where
  "text_of k j = (case field k j of Some (JStr s) \<Rightarrow> s | _ \<Rightarrow> [])"

definition number_of :: "js_string \<Rightarrow> json \<Rightarrow> real" where
  "number_of k j = (case field k j of Some (JNum x) \<Rightarrow> x | _ \<Rightarrow> 0)"

definition usable :: "json \<Rightarrow> bool" where
  "usable j =
     (is_text (field (lit ''condition'') j) \<and> is_num (field (lit ''confidence'') j)
      \<and> is_text (field (lit ''description'') j) \<and> is_text (field (lit ''icd10'') j))"

definition usable_case :: "json \<Rightarrow> bool" where
  "usable_case j =
     (is_text (field (lit ''caseId'') j) \<and> is_num (field (lit ''similarity'') j)
      \<and> is_text (field (lit ''diagnosis'') j) \<and> is_text (field (lit ''outcome'') j))"

definition usable_action :: "json \<Rightarrow> bool" where
  "usable_action j =
     (is_text (field (lit ''text'') j) \<and> is_text (field (lit ''priority'') j)
      \<and> is_text (field (lit ''category'') j))"

definition usable_question :: "json \<Rightarrow> bool" where
  "usable_question j = is_text (field (lit ''text'') j)"

definition diagnosis_of :: "json \<Rightarrow> diagnosis_entry" where
  "diagnosis_of j =
     \<lparr>condition = text_of (lit ''condition'') j,
      confidence = max 0 (min 100 (number_of (lit ''confidence'') j)),
      description = text_of (lit ''description'') j,
      icd10 = text_of (lit ''icd10'') j\<rparr>"

definition case_of :: "json \<Rightarrow> similar_case" where
  "case_of j =
     \<lparr>caseId = text_of (lit ''caseId'') j,
      similarity = max 0 (min 100 (number_of (lit ''similarity'') j)),
      case_diagnosis = text_of (lit ''diagnosis'') j,
      outcome = text_of (lit ''outcome'') j\<rparr>"

definition action_of :: "nat \<times> json \<Rightarrow> recommended_action" where
  "action_of p =
     \<lparr>action_id = (if is_text (field (lit ''id'') (snd p)) then text_of (lit ''id'') (snd p)
                    else lit ''a'' @ show_nat (fst p)),
      action_text = text_of (lit ''text'') (snd p),
      priority = text_of (lit ''priority'') (snd p),
      category = text_of (lit ''category'') (snd p)\<rparr>"

definition question_of :: "nat \<times> json \<Rightarrow> follow_up_question" where
  "question_of p =
     \<lparr>question_id = (if is_text (field (lit ''id'') (snd p)) then text_of (lit ''id'') (snd p)
                      else lit ''q'' @ show_nat (fst p)),
      question_text = text_of (lit ''text'') (snd p)\<rparr>"

subsection \<open>Knowledge Graph Engine\<close>

datatype node_type = Symptom | Condition | Action

type_synonym node = "js_string \<times> node_type"
type_synonym triplet = "node \<times> js_string \<times> node"
type_synonym graph = "triplet list"
type_synonym GraphExpansion = "triplet list"

datatype kg_error = GraphUnavailable

definition nodes_of :: "graph \<Rightarrow> node list" where
  "nodes_of g = remdups (concat (map (\<lambda>t. [fst t, snd (snd t)]) g))"

text \<open>A term resolves to the nodes of the graph that carry it as their name.\<close>

definition resolve :: "graph \<Rightarrow> js_string \<Rightarrow> node list" where
  "resolve g t = filter (\<lambda>n. fst n = t) (nodes_of g)"

text \<open>
  Modelled from the spec: the traversal of the Knowledge Graph Engine (section 4.3),
  breadth-first from the seed nodes and bounded in depth. Each level takes the triplets
  that leave the frontier, and goes on from the nodes they reach that were not visited
  before.
\<close>

fun bfs :: "graph \<Rightarrow> nat \<Rightarrow> node list \<Rightarrow> node list \<Rightarrow> triplet list \<Rightarrow> triplet list" where
  "bfs g 0 frontier visited acc = acc"
| "bfs g (Suc d) frontier visited acc =
     (let edges = filter (\<lambda>t. fst t \<in> set frontier) g;
          fresh = remdups (filter (\<lambda>n. n \<notin> set visited) (map (\<lambda>t. snd (snd t)) edges))
      in bfs g d fresh (visited @ fresh) (acc @ filter (\<lambda>t. t \<notin> set acc) (remdups edges)))"

text \<open>
  Modelled from the spec: \<open>expand(terms, maxDepth) -> GraphExpansion\<close> of the Knowledge
  Graph Engine (section 4.3). The graph may be absent (\<open>None\<close>); terms that resolve to
  no node contribute no seed.
\<close>

definition expand :: "graph option \<Rightarrow> js_string list \<Rightarrow> nat \<Rightarrow> kg_error + GraphExpansion" where
  "expand kg terms maxDepth =
     (case kg of
        None \<Rightarrow> Inr []
      | Some g \<Rightarrow>
          (let seeds = remdups (concat (map (resolve g) terms))
           in Inr (bfs g maxDepth seeds seeds [])))"

definition resolves :: "graph option \<Rightarrow> js_string \<Rightarrow> bool" where
  "resolves kg t = (case kg of None \<Rightarrow> False | Some g \<Rightarrow> resolve g t \<noteq> [])"

definition inside_graph :: "graph option \<Rightarrow> GraphExpansion \<Rightarrow> bool" where
  "inside_graph kg e = (case kg of None \<Rightarrow> e = [] | Some g \<Rightarrow> list_all (\<lambda>t. t \<in> set g) e)"

subsection \<open>Case Retrieval Engine, Prompt Composer and Generation Client\<close>











subsection \<open>Task Executor\<close>


section \<open>Example inputs\<close>

definition example_api :: js_string where
  "example_api = lit ''http://localhost:8000''"

definition answering :: "response \<Rightarrow> server" where
  "answering res rq = Some res"

definition unreachable :: server where
  "unreachable rq = None"

definition fresh_world :: world where
  "fresh_world = \<lparr>localStorage = Map.empty, sent = []\<rparr>"

definition token_world :: world where
  "token_world = \<lparr>localStorage = [lit ''token'' \<mapsto> lit ''abc''], sent = []\<rparr>"

definition not_ready_response :: response where
  "not_ready_response =
     \<lparr>status = 409, statusText = lit ''Conflict'',
      parsed = Some (JObj [(lit ''detail'', JStr (lit ''SessionNotReady''))])\<rparr>"

definition ok_response :: response where
  "ok_response =
     \<lparr>status = 200, statusText = lit ''OK'',
      parsed = Some (JObj [(lit ''sessionId'', JStr (lit ''s1''))])\<rparr>"


definition reordered_request :: js_value where
  "reordered_request =
     JSObj [(lit ''symptoms'', JSStr (lit ''cough'')),
            (lit ''note'', JSStr (lit ''walk-in'')),
            (lit ''age'', JSNum NaN),
            (lit ''medical_history'', JSUndefined),
            (lit ''gender'', JSStr (lit ''male'')),
            (lit ''patient_email'', JSStr (lit ''bob@example.org'')),
            (lit ''patient_name'', JSStr (lit ''Bob''))]"




definition example_input :: PatientInput where
  "example_input =
     \<lparr>complaints = [lit ''chest pain'', lit ''shortness of breath''],
      input_symptoms = [lit ''fatigue'', lit ''dizziness''],
      vitals = [(lit ''hr'', JNum 95), (lit ''bp'', JStr (lit ''130/85''))],
      history = None,
      top_k = 5\<rparr>"

definition example_session :: DiagnosisSession where
  "example_session =
     \<lparr>session_id = 0, state = Pending, created_at = 1, updated_at = 1,
      patient_ref = lit ''p1'', input = example_input, error_detail = None,
      session_result = None, degraded = False\<rparr>"

definition example_store :: store where
  "example_store = \<lparr>sessions = [0 \<mapsto> example_session], next_id = 1\<rparr>"

definition example_run :: "sm_op list" where
  "example_run =
     [OpCreate 1 (lit ''p1'') example_input,
      OpTransition 2 0 Completed NoPayload,
      OpTransition 3 0 Processing NoPayload,
      OpTransition 4 0 Pending NoPayload,
      OpTransition 5 0 Failed (WithError (lit ''no usable diagnosis'')),
      OpTransition 6 0 Completed NoPayload,
      OpDelete 0,
      OpCreate 7 (lit ''p2'') example_input]"

definition example_payload :: json where
  "example_payload =
     JObj [(lit ''differentialDiagnosis'',
              JArr [JObj [(lit ''condition'', JStr (lit ''Angina'')),
                          (lit ''confidence'', JNum 61.5),
                          (lit ''description'', JStr (lit ''Reduced blood flow'')),
                          (lit ''icd10'', JStr (lit ''I20.9''))],
                    JObj [(lit ''condition'', JStr (lit ''No score''))],
                    JStr (lit ''not an entry''),
                    JObj [(lit ''condition'', JStr (lit ''GERD'')),
                          (lit ''confidence'', JNum 178.2),
                          (lit ''description'', JStr (lit ''Acid reflux'')),
                          (lit ''icd10'', JStr (lit ''K21.9''))]]),
           (lit ''recommendedActions'',
              JArr [JObj [(lit ''id'', JStr (lit ''a1'')),
                          (lit ''text'', JStr (lit ''Order ECG'')),
                          (lit ''priority'', JStr (lit ''high'')),
                          (lit ''category'', JStr (lit ''imaging''))],
                    JObj [(lit ''text'', JStr (lit ''Check troponin'')),
                          (lit ''priority'', JStr (lit ''high'')),
                          (lit ''category'', JStr (lit ''lab''))]]),
           (lit ''followUpQuestions'',
              JArr [JObj [(lit ''text'', JStr (lit ''Does the pain worsen?''))]]),
           (lit ''similarCases'',
              JArr [JObj [(lit ''caseId'', JStr (lit ''A124'')),
                          (lit ''similarity'', JNum (-3)),
                          (lit ''diagnosis'', JStr (lit ''GERD'')),
                          (lit ''outcome'', JStr (lit ''Recovered''))]])]"

definition example_graph :: graph where
  "example_graph =
     [((lit ''chest pain'', Symptom), lit ''indicates'', (lit ''angina'', Condition)),
      ((lit ''chest pain'', Symptom), lit ''indicates'', (lit ''GERD'', Condition)),
      ((lit ''angina'', Condition), lit ''investigated_by'', (lit ''ECG'', Action)),
      ((lit ''ECG'', Action), lit ''confirms'', (lit ''angina'', Condition)),
      ((lit ''fatigue'', Symptom), lit ''indicates'', (lit ''anaemia'', Condition))]"








section \<open>Properties of the API client\<close>

lemma fetch_simps:
  "fst (fetch srv rq w) = (case srv rq of None \<Rightarrow> Inl NetworkFailure | Some res \<Rightarrow> Inr res)"
  "snd (fetch srv rq w) = w\<lparr>sent := sent w @ [rq]\<rparr>"
  by (simp_all add: fetch_def)

lemma return_json_fetch:
  "return_json (fetch srv rq w) =
     ((case srv rq of None \<Rightarrow> Inl NetworkFailure | Some res \<Rightarrow> res_json res),
      w\<lparr>sent := sent w @ [rq]\<rparr>)"
  by (simp add: return_json_def fetch_def split: option.splits)

lemma return_json_if_ok_fetch:
  "return_json_if_ok (fetch srv rq w) =
     ((case srv rq of None \<Rightarrow> Inl NetworkFailure
       | Some res \<Rightarrow> if \<not> ok res then Inl (http_error res) else res_json res),
      w\<lparr>sent := sent w @ [rq]\<rparr>)"
  by (simp add: return_json_if_ok_def fetch_def split: option.splits)

subsection \<open>Logout and email verification\<close>

text \<open>
  C10. \<open>logout\<close> and \<open>verifyEmail\<close> send no request and always succeed, whatever the
  network and the token: \<open>logout\<close> removes the key \<open>token\<close> from \<open>localStorage\<close>
  (every other key is kept) and returns \<open>{success: true}\<close>; \<open>verifyEmail(token)\<close>
  returns \<open>{success: true}\<close> and leaves the browser state as it was.
\<close>

theorem logout_verifyEmail_local:
  "fst (logout a srv w) = Inr (JObj [(lit ''success'', JBool True)])
   \<and> sent (snd (logout a srv w)) = sent w
   \<and> localStorage (snd (logout a srv w)) = (localStorage w)(lit ''token'' := None)
   \<and> fst (verifyEmail a srv token w) = Inr (JObj [(lit ''success'', JBool True)])
   \<and> snd (verifyEmail a srv token w) = w"
  by (simp add: logout_def verifyEmail_def success_true_def)

theorem logout_verifyEmail_local_witness:
  "fst (logout example_api unreachable token_world) = Inr (JObj [(lit ''success'', JBool True)])
   \<and> sent (snd (logout example_api unreachable token_world)) = []
   \<and> localStorage (snd (logout example_api unreachable token_world)) (lit ''token'') = None
   \<and> fst (verifyEmail example_api unreachable [] token_world)
       = Inr (JObj [(lit ''success'', JBool True)])
   \<and> snd (verifyEmail example_api unreachable [] token_world) = token_world"
  using logout_verifyEmail_local [of example_api unreachable token_world "[]"]
  by (simp add: token_world_def)

subsection \<open>The knowledge-graph read surface\<close>

lemma unescaped_not_surrogate: "unescaped c \<Longrightarrow> \<not> is_lead c \<and> \<not> is_trail c"
  by (auto simp: unescaped_def is_lead_def is_trail_def Let_def)

lemma encodeURIComponent_None_iff: "encodeURIComponent s = None \<longleftrightarrow> \<not> isWellFormed s"
  by (induction s rule: encodeURIComponent.induct) (auto simp: unescaped_not_surrogate)

text \<open>
  C8 (as the code has it). The knowledge-graph read surface: \<open>getDiseaseInfo(d)\<close>,
  \<open>getSymptomRelations(t)\<close>, \<open>findPath(x, y)\<close> and \<open>getKGStats()\<close> take no session id.
  \<open>encodeURIComponent\<close> rejects exactly the strings that are not well formed (that hold
  an unpaired surrogate). On well-formed arguments each method sends one request, built
  by \<open>fetch(url)\<close> alone: a GET with no headers, no credentials and no body, to
  \<open>/api/v1/kg/disease/{encodeURIComponent(d)}\<close>, \<open>/api/v1/kg/symptoms/{encodeURIComponent(t)}\<close>,
  \<open>/api/v1/kg/path/{encodeURIComponent(x)}/{encodeURIComponent(y)}\<close> and \<open>/api/v1/kg/stats\<close>
  under \<open>API_URL\<close>, and returns the parsed body of the response. On an argument that is
  not well formed the method throws \<open>URIError\<close> and sends nothing.
\<close>

theorem kg_read_surface:
  "(encodeURIComponent s = None) = (\<not> isWellFormed s)
   \<and> sent (snd (getDiseaseInfo a srv d w))
     = (case encodeURIComponent d of None \<Rightarrow> sent w
        | Some e \<Rightarrow> sent w @ [plain_get (a @ lit ''/api/v1/kg/disease/'' @ e)])
   \<and> fst (getDiseaseInfo a srv d w)
     = (case encodeURIComponent d of None \<Rightarrow> Inl URIError
        | Some e \<Rightarrow>
           (case srv (plain_get (a @ lit ''/api/v1/kg/disease/'' @ e)) of
              None \<Rightarrow> Inl NetworkFailure | Some res \<Rightarrow> res_json res))
   \<and> sent (snd (getSymptomRelations a srv t w))
     = (case encodeURIComponent t of None \<Rightarrow> sent w
        | Some e \<Rightarrow> sent w @ [plain_get (a @ lit ''/api/v1/kg/symptoms/'' @ e)])
   \<and> fst (getSymptomRelations a srv t w)
     = (case encodeURIComponent t of None \<Rightarrow> Inl URIError
        | Some e \<Rightarrow>
           (case srv (plain_get (a @ lit ''/api/v1/kg/symptoms/'' @ e)) of
              None \<Rightarrow> Inl NetworkFailure | Some res \<Rightarrow> res_json res))
   \<and> sent (snd (findPath a srv x y w))
     = (case encodeURIComponent x of None \<Rightarrow> sent w
        | Some e \<Rightarrow>
           (case encodeURIComponent y of None \<Rightarrow> sent w
            | Some f \<Rightarrow> sent w @ [plain_get (a @ lit ''/api/v1/kg/path/'' @ e @ lit ''/'' @ f)]))
   \<and> fst (findPath a srv x y w)
     = (case encodeURIComponent x of None \<Rightarrow> Inl URIError
        | Some e \<Rightarrow>
           (case encodeURIComponent y of None \<Rightarrow> Inl URIError
            | Some f \<Rightarrow>
               (case srv (plain_get (a @ lit ''/api/v1/kg/path/'' @ e @ lit ''/'' @ f)) of
                  None \<Rightarrow> Inl NetworkFailure | Some res \<Rightarrow> res_json res)))
   \<and> sent (snd (getKGStats a srv w)) = sent w @ [plain_get (a @ lit ''/api/v1/kg/stats'')]
   \<and> fst (getKGStats a srv w)
     = (case srv (plain_get (a @ lit ''/api/v1/kg/stats'')) of
          None \<Rightarrow> Inl NetworkFailure | Some res \<Rightarrow> res_json res)
   \<and> http_method_of (plain_get u) = GET \<and> url (plain_get u) = u \<and> headers (plain_get u) = []
   \<and> credentials (plain_get u) = None \<and> body (plain_get u) = None"
  using encodeURIComponent_None_iff [of s]
  by (simp add: getDiseaseInfo_def getSymptomRelations_def findPath_def getKGStats_def
      return_json_fetch plain_get_def http_method_of_def split: option.splits)

text \<open>
  The read surface on concrete arguments: a space, a slash and a non-ASCII letter are
  percent-escaped, and an unpaired surrogate sends nothing.
\<close>

theorem kg_read_surface_witness:
  "sent (snd (getDiseaseInfo example_api unreachable (lit ''flu a/b'') fresh_world))
     = [plain_get (lit ''http://localhost:8000/api/v1/kg/disease/flu%20a%2Fb'')]
   \<and> sent (snd (findPath example_api unreachable (lit ''a b'') [233] fresh_world))
     = [plain_get (lit ''http://localhost:8000/api/v1/kg/path/a%20b/%C3%A9'')]
   \<and> sent (snd (getKGStats example_api unreachable fresh_world))
     = [plain_get (lit ''http://localhost:8000/api/v1/kg/stats'')]
   \<and> sent (snd (getSymptomRelations example_api unreachable [55296] fresh_world)) = []"
  using kg_read_surface [where a = example_api and srv = unreachable and w = fresh_world
      and d = "lit ''flu a/b''" and t = "[55296]" and x = "lit ''a b''" and y = "[233]"]
  by (simp add: example_api_def fresh_world_def lit_def unescaped_def is_lead_def is_trail_def
      percent_octets_def utf8_def hex_digit_def)

text \<open>
  C8 as worded says that a GET is issued for every disease name and every node pair. A
  name that is an unpaired surrogate is a string too: \<open>getDiseaseInfo\<close> and \<open>findPath\<close>
  throw on it and no request is issued.
\<close>

theorem kg_unpaired_surrogate_counterexample:
  "\<not> isWellFormed [55296]
   \<and> sent (snd (getDiseaseInfo example_api (answering ok_response) [55296] fresh_world)) = []
   \<and> fst (getDiseaseInfo example_api (answering ok_response) [55296] fresh_world) = Inl URIError
   \<and> sent (snd (findPath example_api (answering ok_response) (lit ''a'') [55296] fresh_world)) = []
   \<and> fst (findPath example_api (answering ok_response) (lit ''a'') [55296] fresh_world)
       = Inl URIError"
  by (simp add: getDiseaseInfo_def findPath_def fresh_world_def lit_def unescaped_def
      is_lead_def is_trail_def)

subsection \<open>Which methods look at the status\<close>


















subsection \<open>Export\<close>

text \<open>
  C1 (as the code has it). For every session id and format, \<open>exportDiagnosis\<close> sends
  one POST to \<open>/api/v1/diagnosis/{sessionId}/export\<close> with the JSON body
  \<open>{format}\<close> (\<open>'json'\<close> when the argument is left out) and returns the parsed body of
  the response that arrives, whatever its status. An answer of the server that the
  session is unknown or not ready is therefore returned to the caller as that body; the
  call fails only when no response arrives or the body is not JSON.
\<close>

theorem exportDiagnosis_returns_any_body:
  "(let rq = \<lparr>url = a @ lit ''/api/v1/diagnosis/'' @ sessionId @ lit ''/export'',
               method_opt = Some POST,
               headers = [(lit ''Content-Type'', lit ''application/json'')],
               credentials = Some Include,
               body = Some (JsonText (JObj [(lit ''format'',
                        JStr (case format_opt of None \<Rightarrow> lit ''json'' | Some f \<Rightarrow> f))]))\<rparr>
    in sent (snd (exportDiagnosis a srv sessionId format_opt w)) = sent w @ [rq]
     \<and> fst (exportDiagnosis a srv sessionId format_opt w)
         = (case srv rq of
              None \<Rightarrow> Inl NetworkFailure
            | Some res \<Rightarrow> (case parsed res of None \<Rightarrow> Inl SyntaxError | Some j \<Rightarrow> Inr j)))"
  by (simp add: exportDiagnosis_def return_json_fetch getHeaders_def res_json_def Let_def
      split: option.splits)

text \<open>
  C1 as worded says that export on a pending session fails and returns no body. On a
  server that answers the export of a pending session with 409 and an error document,
  the call does not fail: it returns the document.
\<close>

theorem exportDiagnosis_pending_counterexample:
  "\<not> ok not_ready_response
   \<and> \<not> isl (fst (exportDiagnosis example_api (answering not_ready_response) (lit ''s1'')
                   (Some (lit ''json'')) fresh_world))
   \<and> fst (exportDiagnosis example_api (answering not_ready_response) (lit ''s1'')
            (Some (lit ''json'')) fresh_world)
       = Inr (JObj [(lit ''detail'', JStr (lit ''SessionNotReady''))])"
  by (simp add: exportDiagnosis_def return_json_fetch res_json_def answering_def
      not_ready_response_def ok_def)

subsection \<open>Submit\<close>

lemma createDiagnosis_result:
  "(let rq = \<lparr>url = a @ lit ''/api/v1/diagnosis/start'',
               method_opt = Some POST,
               headers = [(lit ''Content-Type'', lit ''application/json'')],
               credentials = Some Include,
               body = map_option JsonText (JSON_stringify data)\<rparr>
    in sent (snd (createDiagnosis a srv data w)) = sent w @ [rq]
     \<and> fst (createDiagnosis a srv data w)
         = (case srv rq of
              None \<Rightarrow> Inl NetworkFailure
            | Some res \<Rightarrow>
                if ok res
                then (case parsed res of None \<Rightarrow> Inl SyntaxError | Some j \<Rightarrow> Inr j)
                else Inl (Error (lit ''HTTP '' @ show_nat (status res) @ lit '': ''
                                 @ statusText res))))"
  by (simp add: createDiagnosis_def return_json_if_ok_fetch getHeaders_def res_json_def Let_def
      http_error_def split: option.splits)

lemma stringify_properties_lookup:
  "map_of kvs k = Some v \<Longrightarrow> JSON_stringify v = Some j \<Longrightarrow>
     map_of (stringify_properties kvs) k = Some j"
  by (induction kvs) (auto split: option.splits if_splits)

text \<open>
  No object of the interface \<open>DiagnosisRequest\<close> is sent as a PatientInput: its
  \<open>symptoms\<close> is one string, whatever else it holds and in whatever order.
\<close>

lemma DiagnosisRequest_never_PatientInput:
  assumes "is_DiagnosisRequest data"
  shows "\<exists>j. JSON_stringify data = Some j \<and> \<not> spec_PatientInput j"
proof -
  from assms obtain kvs where d: "data = JSObj kvs"
    by (cases data) (simp_all add: is_DiagnosisRequest_def)
  from assms d have "is_string (property (lit ''symptoms'') (JSObj kvs))"
    by (simp add: is_DiagnosisRequest_def)
  then obtain s where s: "map_of kvs (lit ''symptoms'') = Some (JSStr s)"
    by (cases "map_of kvs (lit ''symptoms'')"; cases "the (map_of kvs (lit ''symptoms''))")
       simp_all
  have "map_of (stringify_properties kvs) (lit ''symptoms'') = Some (JStr s)"
    by (rule stringify_properties_lookup [OF s]) simp
  then have "\<not> spec_PatientInput (JObj (stringify_properties kvs))"
    by (simp add: spec_PatientInput_def split: option.splits json.splits)
  with d show ?thesis by simp
qed

text \<open>
  The body is the caller's object as \<open>JSON.stringify\<close> writes it: the properties in the
  caller's order, with those the interface does not name, without those that are
  \<open>undefined\<close>, and with \<open>null\<close> for an age that is not a number.
\<close>

lemma createDiagnosis_keeps_callers_object:
  "is_DiagnosisRequest reordered_request
   \<and> map body (sent (snd (createDiagnosis example_api unreachable reordered_request fresh_world)))
     = [Some (JsonText (JObj [(lit ''symptoms'', JStr (lit ''cough'')),
                              (lit ''note'', JStr (lit ''walk-in'')),
                              (lit ''age'', JNull),
                              (lit ''gender'', JStr (lit ''male'')),
                              (lit ''patient_email'', JStr (lit ''bob@example.org'')),
                              (lit ''patient_name'', JStr (lit ''Bob''))]))]"
  by (simp add: createDiagnosis_def return_json_if_ok_fetch reordered_request_def
      is_DiagnosisRequest_def fresh_world_def lit_def)


subsection \<open>Signup and login\<close>



section \<open>Properties of the session lifecycle\<close>

lemma wf_empty: "wf_store empty_store"
  by (simp add: wf_store_def empty_store_def)

lemma wf_apply_op: "wf_store st \<Longrightarrow> wf_store (apply_op st x)"
  by (cases x)
     (auto simp: wf_store_def create_def transition_def delete_session_def less_Suc_eq
        split: option.splits if_splits)

lemma next_id_apply_op: "next_id st \<le> next_id (apply_op st x)"
  by (cases x) (auto simp: create_def transition_def delete_session_def split: option.splits)

lemma gone_stays_gone:
  "wf_store st \<Longrightarrow> sessions st sid = None \<Longrightarrow> sid < next_id st \<Longrightarrow> observed sid st ops = []"
proof (induction ops arbitrary: st)
  case Nil
  then show ?case by (simp add: current_def)
next
  case (Cons x xs)
  have "sessions (apply_op st x) sid = None"
    using Cons.prems
    by (cases x) (auto simp: create_def transition_def delete_session_def split: option.splits)
  moreover have "sid < next_id (apply_op st x)"
    using Cons.prems(3) next_id_apply_op [of st x] by simp
  ultimately have "observed sid (apply_op st x) xs = []"
    using Cons.IH wf_apply_op [OF Cons.prems(1)] by blast
  with Cons.prems show ?case by (simp add: current_def)
qed

lemma apply_op_session:
  assumes "wf_store st" and "sessions st sid = Some s"
  shows "sessions (apply_op st x) sid = None
         \<or> (\<exists>s'. sessions (apply_op st x) sid = Some s' \<and> step_ok (state s) (state s'))"
proof -
  have lt: "sid < next_id st"
    using assms by (simp add: wf_store_def)
  show ?thesis
  proof (cases x)
    case (OpCreate now patient inp)
    with lt assms(2) show ?thesis
      by (simp add: create_def step_ok_def)
  next
    case (OpTransition now sid' new pl)
    with assms(2) show ?thesis
      by (cases pl) (auto simp: transition_def step_ok_def split: option.splits)
  next
    case (OpDelete sid')
    with assms(2) show ?thesis
      by (auto simp: delete_session_def step_ok_def split: option.splits)
  qed
qed

lemma present_path:
  "wf_store st \<Longrightarrow> sessions st sid = Some s \<Longrightarrow>
     \<exists>rest. observed sid st ops = state s # rest \<and> successively step_ok (state s # rest)"
proof (induction ops arbitrary: st s)
  case Nil
  then show ?case by (simp add: current_def)
next
  case (Cons x xs)
  have wf': "wf_store (apply_op st x)"
    by (rule wf_apply_op [OF Cons.prems(1)])
  from apply_op_session [OF Cons.prems, of x] show ?case
  proof
    assume gone: "sessions (apply_op st x) sid = None"
    have "sid < next_id st"
      using Cons.prems by (simp add: wf_store_def)
    then have "sid < next_id (apply_op st x)"
      using next_id_apply_op [of st x] by simp
    then have "observed sid (apply_op st x) xs = []"
      using gone_stays_gone [OF wf' gone] by simp
    with Cons.prems(2) show ?thesis by (simp add: current_def)
  next
    assume "\<exists>s'. sessions (apply_op st x) sid = Some s' \<and> step_ok (state s) (state s')"
    then obtain s' where s': "sessions (apply_op st x) sid = Some s'"
      and ok: "step_ok (state s) (state s')" by blast
    from Cons.IH [OF wf' s'] obtain rest where
      "observed sid (apply_op st x) xs = state s' # rest"
      "successively step_ok (state s' # rest)" by blast
    with ok Cons.prems(2) show ?thesis by (simp add: current_def)
  qed
qed

lemma fresh_path:
  "wf_store st \<Longrightarrow> sessions st sid = None \<Longrightarrow> next_id st \<le> sid \<Longrightarrow>
     observed sid st ops = []
     \<or> (\<exists>rest. observed sid st ops = Pending # rest \<and> successively step_ok (Pending # rest))"
proof (induction ops arbitrary: st)
  case Nil
  then show ?case by (simp add: current_def)
next
  case (Cons x xs)
  have wf': "wf_store (apply_op st x)"
    by (rule wf_apply_op [OF Cons.prems(1)])
  have cur: "current sid st = []"
    using Cons.prems(2) by (simp add: current_def)
  show ?case
  proof (cases "sessions (apply_op st x) sid")
    case None
    show ?thesis
    proof (cases "next_id (apply_op st x) \<le> sid")
      case True
      from Cons.IH [OF wf' None True] cur show ?thesis by simp
    next
      case False
      then have "observed sid (apply_op st x) xs = []"
        using gone_stays_gone [OF wf' None] by simp
      with cur show ?thesis by simp
    qed
  next
    case (Some s')
    have "state s' = Pending"
      using Some Cons.prems(2)
      by (cases x)
         (auto simp: create_def transition_def delete_session_def
            split: option.splits if_splits)
    with present_path [OF wf' Some, of xs] cur show ?thesis by auto
  qed
qed

lemma remdups_adj_steps:
  "successively step_ok xs \<Longrightarrow> successively allowed (remdups_adj xs)"
  by (induction xs rule: remdups_adj.induct) (auto simp: step_ok_def successively_Cons)

lemma allowed_paths:
  "successively allowed (Pending # ys) \<Longrightarrow>
     ys = [] \<or> ys = [Processing] \<or> ys = [Processing, Completed] \<or> ys = [Processing, Failed]"
proof (cases ys)
  case Nil
  then show ?thesis by simp
next
  case (Cons a as)
  assume p: "successively allowed (Pending # ys)"
  with Cons have a: "a = Processing" by (cases a) simp_all
  show ?thesis
  proof (cases as)
    case Nil
    with Cons a show ?thesis by simp
  next
    case (Cons b bs)
    with p \<open>ys = a # as\<close> a have b: "b = Completed \<or> b = Failed"
      by (cases b) simp_all
    have "bs = []"
    proof (cases bs)
      case Nil then show ?thesis .
    next
      case (Cons c cs)
      with p \<open>ys = a # as\<close> \<open>as = b # bs\<close> a b show ?thesis by auto
    qed
    with Cons \<open>ys = a # as\<close> a b show ?thesis by auto
  qed
qed

lemma remdups_adj_hd: "remdups_adj (x # xs) = x # tl (remdups_adj (x # xs))"
  by (cases xs) (auto simp: remdups_adj_Cons split: list.splits)

lemma state_sequence_cases:
  "state_sequence sid empty_store ops
     \<in> {[], [Pending], [Pending, Processing], [Pending, Processing, Completed],
         [Pending, Processing, Failed]}"
proof -
  have "sessions empty_store sid = None" "next_id empty_store \<le> sid"
    by (simp_all add: empty_store_def)
  from fresh_path [OF wf_empty this, of ops] show ?thesis
  proof
    assume "observed sid empty_store ops = []"
    then show ?thesis by (simp add: state_sequence_def)
  next
    assume "\<exists>rest. observed sid empty_store ops = Pending # rest
              \<and> successively step_ok (Pending # rest)"
    then obtain rest where o: "observed sid empty_store ops = Pending # rest"
      and s: "successively step_ok (Pending # rest)" by blast
    obtain ys where ys: "remdups_adj (Pending # rest) = Pending # ys"
      using remdups_adj_hd [of Pending rest] by blast
    have "successively allowed (remdups_adj (Pending # rest))"
      by (rule remdups_adj_steps [OF s])
    then have "successively allowed (Pending # ys)"
      by (simp only: ys)
    from allowed_paths [OF this] show ?thesis
      by (auto simp: state_sequence_def o ys)
  qed
qed


text \<open>
  C3. For every session, \<open>transition(sessionId, newState)\<close> succeeds only along
  \<open>pending -> processing -> {completed, failed}\<close>, and then the session is in the new
  state; any other requested transition fails with \<open>InvalidStateTransition\<close> and leaves
  the store as it was. Over any run of the Session Manager from the empty store, the
  sequence of states observed for a session is a prefix of pending, processing,
  completed or of pending, processing, failed, and no state occurs in it twice.
\<close>

theorem session_state_machine:
  "(sessions st sid = Some s \<longrightarrow>
      (if (state s, new) \<in> {(Pending, Processing), (Processing, Completed), (Processing, Failed)}
       then fst (transition st now sid new pl) = Inr ()
            \<and> map_option state (sessions (snd (transition st now sid new pl)) sid) = Some new
       else transition st now sid new pl = (Inl InvalidStateTransition, st)))
   \<and> (prefix (state_sequence sid empty_store ops) [Pending, Processing, Completed]
      \<or> prefix (state_sequence sid empty_store ops) [Pending, Processing, Failed])
   \<and> distinct (state_sequence sid empty_store ops)"
proof -
  have "sessions st sid = Some s \<Longrightarrow>
      (if (state s, new) \<in> {(Pending, Processing), (Processing, Completed), (Processing, Failed)}
       then fst (transition st now sid new pl) = Inr ()
            \<and> map_option state (sessions (snd (transition st now sid new pl)) sid) = Some new
       else transition st now sid new pl = (Inl InvalidStateTransition, st))"
    by (cases "state s"; cases new; cases pl) (simp_all add: transition_def)
  moreover
  from state_sequence_cases [of sid ops]
  have "(prefix (state_sequence sid empty_store ops) [Pending, Processing, Completed]
          \<or> prefix (state_sequence sid empty_store ops) [Pending, Processing, Failed])
        \<and> distinct (state_sequence sid empty_store ops)"
    by (auto simp: prefix_Cons)
  ultimately show ?thesis by blast
qed

text \<open>
  A run that also asks for transitions outside the state machine, deletes the session and
  creates another: the session is seen pending, processing, failed.
\<close>

theorem session_state_machine_witness:
  "sessions example_store 0 = Some example_session
   \<and> transition example_store 9 0 Completed NoPayload = (Inl InvalidStateTransition, example_store)
   \<and> fst (transition example_store 9 0 Processing NoPayload) = Inr ()
   \<and> state_sequence 0 empty_store example_run = [Pending, Processing, Failed]
   \<and> prefix (state_sequence 0 empty_store example_run) [Pending, Processing, Failed]
   \<and> distinct (state_sequence 0 empty_store example_run)"
  using session_state_machine [of example_store 0 example_session Completed 9 NoPayload example_run]
    session_state_machine [of example_store 0 example_session Processing 9 NoPayload example_run]
  by (simp add: example_store_def example_session_def example_run_def state_sequence_def
      current_def create_def transition_def delete_session_def empty_store_def)

section \<open>Properties of the Result Aggregator\<close>

lemma show_nat_nonempty: "show_nat n \<noteq> []"
  by (subst show_nat.simps) simp

lemma str_field_eq: "str_field k j = (if is_text (field k j) then Some (text_of k j) else None)"
  by (cases "field k j" rule: is_text.cases) (simp_all add: str_field_def text_of_def)

lemma num_field_eq: "num_field k j = (if is_num (field k j) then Some (number_of k j) else None)"
  by (cases "field k j" rule: is_num.cases) (simp_all add: num_field_def number_of_def)

lemma parse_diagnosis_eq:
  "parse_diagnosis = (\<lambda>j. if usable j then Some (diagnosis_of j) else None)"
  by (rule ext)
     (simp add: parse_diagnosis_def usable_def diagnosis_of_def str_field_eq num_field_eq
        clamp_def)

lemma parse_case_eq:
  "parse_case = (\<lambda>j. if usable_case j then Some (case_of j) else None)"
  by (rule ext)
     (simp add: parse_case_def usable_case_def case_of_def str_field_eq num_field_eq clamp_def)

lemma parse_action_eq:
  "parse_action = (\<lambda>p. if usable_action (snd p) then Some (action_of p) else None)"
  by (rule ext)
     (simp add: parse_action_def usable_action_def action_of_def str_field_eq synthetic_id_def
        split: prod.splits)

lemma parse_question_eq:
  "parse_question = (\<lambda>p. if usable_question (snd p) then Some (question_of p) else None)"
  by (rule ext)
     (simp add: parse_question_def usable_question_def question_of_def str_field_eq
        synthetic_id_def split: prod.splits)

lemma map_filter_if:
  "List.map_filter (\<lambda>x. if P x then Some (f x) else None) xs = map f (filter P xs)"
  by (induction xs) (simp_all add: List.map_filter_simps)

lemma filter_empty_iff: "filter P xs = [] \<longleftrightarrow> \<not> list_ex P xs"
  by (induction xs) auto

lemma sorted_desc:
  "sorted_wrt (\<lambda>a b. confidence b \<le> confidence a) (sort_key (\<lambda>d. - confidence d) ds)"
proof -
  have "sorted (map (\<lambda>d. - confidence d) (sort_key (\<lambda>d. - confidence d) ds))"
    by (rule sorted_sort_key)
  then show ?thesis
    by (simp add: sorted_map sorted_wrt_iff_nth_less)
qed

text \<open>What \<open>normalize\<close> returns, said with the usable entries of the payload.\<close>

lemma normalize_eq:
  "normalize raw =
     (if list_ex usable (raw_diagnoses raw)
      then Inr
        \<lparr>differentialDiagnosis =
           sort_key (\<lambda>d. - confidence d) (map diagnosis_of (filter usable (raw_diagnoses raw))),
         recommendedActions =
           map action_of (filter (\<lambda>p. usable_action (snd p))
             (numbered (arr_field (lit ''recommendedActions'') raw))),
         followUpQuestions =
           map question_of (filter (\<lambda>p. usable_question (snd p))
             (numbered (arr_field (lit ''followUpQuestions'') raw))),
         similarCases = map case_of (filter usable_case (arr_field (lit ''similarCases'') raw))\<rparr>
      else Inl MalformedPayload)"
  by (simp add: normalize_def Let_def parse_diagnosis_eq parse_case_eq parse_action_eq
      parse_question_eq map_filter_if filter_empty_iff)

lemma normalize_fails_iff:
  "normalize raw = Inl MalformedPayload \<longleftrightarrow> \<not> list_ex usable (raw_diagnoses raw)"
  by (simp add: normalize_eq)

lemma normalize_success:
  assumes "list_ex usable (raw_diagnoses raw)"
  shows "\<exists>r. normalize raw = Inr r
     \<and> list_all (\<lambda>d. 0 \<le> confidence d \<and> confidence d \<le> 100) (differentialDiagnosis r)
     \<and> list_all (\<lambda>c. 0 \<le> similarity c \<and> similarity c \<le> 100) (similarCases r)
     \<and> sorted_wrt (\<lambda>a b. confidence b \<le> confidence a) (differentialDiagnosis r)
     \<and> mset (differentialDiagnosis r)
         = mset (map diagnosis_of (filter usable (raw_diagnoses raw)))
     \<and> similarCases r
         = map case_of (filter usable_case (arr_field (lit ''similarCases'') raw))
     \<and> recommendedActions r
         = map action_of (filter (\<lambda>p. usable_action (snd p))
             (numbered (arr_field (lit ''recommendedActions'') raw)))
     \<and> followUpQuestions r
         = map question_of (filter (\<lambda>p. usable_question (snd p))
             (numbered (arr_field (lit ''followUpQuestions'') raw)))"
proof -
  let ?r = "\<lparr>differentialDiagnosis =
           sort_key (\<lambda>d. - confidence d) (map diagnosis_of (filter usable (raw_diagnoses raw))),
         recommendedActions =
           map action_of (filter (\<lambda>p. usable_action (snd p))
             (numbered (arr_field (lit ''recommendedActions'') raw))),
         followUpQuestions =
           map question_of (filter (\<lambda>p. usable_question (snd p))
             (numbered (arr_field (lit ''followUpQuestions'') raw))),
         similarCases = map case_of (filter usable_case (arr_field (lit ''similarCases'') raw))\<rparr>"
  have n: "normalize raw = Inr ?r"
    using assms by (simp add: normalize_eq)
  have c1: "list_all (\<lambda>d. 0 \<le> confidence d \<and> confidence d \<le> 100) (differentialDiagnosis ?r)"
    by (auto simp: list_all_iff diagnosis_of_def)
  have c2: "list_all (\<lambda>c. 0 \<le> similarity c \<and> similarity c \<le> 100) (similarCases ?r)"
    by (auto simp: list_all_iff case_of_def)
  have c3: "sorted_wrt (\<lambda>a b. confidence b \<le> confidence a) (differentialDiagnosis ?r)"
    by (simp add: sorted_desc)
  have c4: "mset (differentialDiagnosis ?r)
         = mset (map diagnosis_of (filter usable (raw_diagnoses raw)))"
    by simp
  from n c1 c2 c3 c4 show ?thesis
    by (intro exI [of _ ?r]) simp
qed

text \<open>
  C6. For every raw payload with at least one usable diagnosis entry, \<open>normalize\<close>
  returns a DiagnosisResult in which every confidence and every similarity lies in
  [0,100] and the diagnoses are sorted by descending confidence. Malformed entries are
  dropped and do not fail the result: the diagnoses are exactly the usable diagnosis
  entries of the payload, and the similar cases, actions and questions are the usable
  ones in their order, none left out. An action or a question keeps the id it brings;
  one missing an id gets a synthetic id, a letter and its position, which is never empty.
  \<open>normalize\<close> fails, with \<open>MalformedPayload\<close>, exactly when the payload has no usable
  diagnosis entry.
\<close>

theorem normalize_result:
  "(list_ex usable (raw_diagnoses raw) \<longrightarrow>
      (\<exists>r. normalize raw = Inr r
         \<and> list_all (\<lambda>d. 0 \<le> confidence d \<and> confidence d \<le> 100) (differentialDiagnosis r)
         \<and> list_all (\<lambda>c. 0 \<le> similarity c \<and> similarity c \<le> 100) (similarCases r)
         \<and> sorted_wrt (\<lambda>a b. confidence b \<le> confidence a) (differentialDiagnosis r)
         \<and> mset (differentialDiagnosis r)
             = mset (map diagnosis_of (filter usable (raw_diagnoses raw)))
         \<and> similarCases r
             = map case_of (filter usable_case (arr_field (lit ''similarCases'') raw))
         \<and> recommendedActions r
             = map action_of (filter (\<lambda>p. usable_action (snd p))
                 (numbered (arr_field (lit ''recommendedActions'') raw)))
         \<and> followUpQuestions r
             = map question_of (filter (\<lambda>p. usable_question (snd p))
                 (numbered (arr_field (lit ''followUpQuestions'') raw)))))
   \<and> (normalize raw = Inl MalformedPayload \<longleftrightarrow> \<not> list_ex usable (raw_diagnoses raw))
   \<and> action_id (action_of (i, j))
       = (if is_text (field (lit ''id'') j) then text_of (lit ''id'') j
          else lit ''a'' @ show_nat i)
   \<and> question_id (question_of (i, j))
       = (if is_text (field (lit ''id'') j) then text_of (lit ''id'') j
          else lit ''q'' @ show_nat i)
   \<and> lit ''a'' @ show_nat i \<noteq> [] \<and> lit ''q'' @ show_nat i \<noteq> []"
  using normalize_success [of raw] normalize_fails_iff [of raw]
  by (simp add: action_of_def question_of_def show_nat_nonempty)

text \<open>
  A payload with a confidence of 178.2, a similarity of -3, two malformed diagnosis
  entries, and an action and a question without id; and a payload with nothing in it.
\<close>

theorem normalize_result_witness:
  "list_ex usable (raw_diagnoses example_payload)
   \<and> map (\<lambda>d. (condition d, confidence d))
        (case normalize example_payload of Inl e \<Rightarrow> [] | Inr r \<Rightarrow> differentialDiagnosis r)
       = [(lit ''GERD'', 100), (lit ''Angina'', 61.5)]
   \<and> map action_id
        (case normalize example_payload of Inl e \<Rightarrow> [] | Inr r \<Rightarrow> recommendedActions r)
       = [lit ''a1'', lit ''a2'']
   \<and> map question_id
        (case normalize example_payload of Inl e \<Rightarrow> [] | Inr r \<Rightarrow> followUpQuestions r)
       = [lit ''q1'']
   \<and> map similarity
        (case normalize example_payload of Inl e \<Rightarrow> [] | Inr r \<Rightarrow> similarCases r)
       = [0]
   \<and> normalize (JObj []) = Inl MalformedPayload"
  using normalize_result [where raw = example_payload] normalize_result [where raw = "JObj []"]
  by (simp add: example_payload_def normalize_def raw_diagnoses_def arr_field_def
      str_field_def num_field_def usable_def usable_case_def usable_action_def
      usable_question_def diagnosis_of_def case_of_def action_of_def question_of_def
      text_of_def number_of_def parse_diagnosis_def parse_case_def parse_action_def
      parse_question_def numbered_def synthetic_id_def clamp_def List.map_filter_simps
      show_nat.simps lit_def Let_def upt_rec)

section \<open>Properties of the Knowledge Graph Engine\<close>

lemma bfs_no_frontier: "bfs g d [] visited acc = acc"
  by (induction d arbitrary: visited) (simp_all add: Let_def)

lemma bfs_within: "set (bfs g d frontier visited acc) \<subseteq> set g \<union> set acc"
proof (induction d arbitrary: frontier visited acc)
  case 0
  then show ?case by simp
next
  case (Suc d)
  let ?edges = "filter (\<lambda>t. fst t \<in> set frontier) g"
  let ?fresh = "remdups (filter (\<lambda>n. n \<notin> set visited) (map (\<lambda>t. snd (snd t)) ?edges))"
  let ?acc = "acc @ filter (\<lambda>t. t \<notin> set acc) (remdups ?edges)"
  have "set (bfs g d ?fresh (visited @ ?fresh) ?acc) \<subseteq> set g \<union> set ?acc"
    by (rule Suc.IH)
  moreover have "set ?acc \<subseteq> set g \<union> set acc" by auto
  ultimately show ?case by (auto simp: Let_def)
qed

lemma bfs_distinct: "distinct acc \<Longrightarrow> distinct (bfs g d frontier visited acc)"
proof (induction d arbitrary: frontier visited acc)
  case 0
  then show ?case by simp
next
  case (Suc d)
  let ?edges = "filter (\<lambda>t. fst t \<in> set frontier) g"
  have "distinct (acc @ filter (\<lambda>t. t \<notin> set acc) (remdups ?edges))"
    using Suc.prems by auto
  from Suc.IH [OF this] show ?case by (simp add: Let_def)
qed

lemma skip_unknown:
  "concat (map (resolve g) (filter (\<lambda>t. resolve g t \<noteq> []) terms)) = concat (map (resolve g) terms)"
  by (induction terms) auto

lemma no_seed: "list_all (\<lambda>t. resolve g t = []) terms \<Longrightarrow> concat (map (resolve g) terms) = []"
  by (simp add: list_all_iff)

lemma expand_graph:
  "(\<exists>e. expand (Some g) terms d = Inr e \<and> inside_graph (Some g) e \<and> distinct e)
   \<and> expand (Some g) [] d = Inr []
   \<and> (list_all (\<lambda>t. \<not> resolves (Some g) t) terms \<longrightarrow> expand (Some g) terms d = Inr [])
   \<and> expand (Some g) terms d = expand (Some g) (filter (resolves (Some g)) terms) d"
proof -
  have r: "resolves (Some g) = (\<lambda>t. resolve g t \<noteq> [])"
    by (rule ext) (simp add: resolves_def)
  let ?seeds = "remdups (concat (map (resolve g) terms))"
  have e: "expand (Some g) terms d = Inr (bfs g d ?seeds ?seeds [])"
    by (simp add: expand_def Let_def)
  have "set (bfs g d ?seeds ?seeds []) \<subseteq> set g"
    using bfs_within [of g d ?seeds ?seeds "[]"] by simp
  then have w: "inside_graph (Some g) (bfs g d ?seeds ?seeds [])"
    by (auto simp: inside_graph_def list_all_iff)
  have di: "distinct (bfs g d ?seeds ?seeds [])"
    by (rule bfs_distinct) simp
  have empty: "expand (Some g) [] d = Inr []"
    by (simp add: expand_def bfs_no_frontier)
  have none: "list_all (\<lambda>t. \<not> resolves (Some g) t) terms \<Longrightarrow> expand (Some g) terms d = Inr []"
    by (simp add: r e no_seed bfs_no_frontier)
  have skip: "expand (Some g) terms d = expand (Some g) (filter (resolves (Some g)) terms) d"
    by (simp add: r expand_def skip_unknown)
  show ?thesis
  proof (intro conjI impI)
    show "\<exists>e. expand (Some g) terms d = Inr e \<and> inside_graph (Some g) e \<and> distinct e"
      using e w di by simp
    show "expand (Some g) [] d = Inr []"
      by (rule empty)
    show "expand (Some g) terms d = Inr []" if "list_all (\<lambda>t. \<not> resolves (Some g) t) terms"
      using that by (rule none)
    show "expand (Some g) terms d = expand (Some g) (filter (resolves (Some g)) terms) d"
      by (rule skip)
  qed
qed

text \<open>
  C7. For every term set and depth, \<open>expand(terms, maxDepth)\<close> never fails: it returns
  an expansion, made of triplets of the graph, each once. Unknown terms are skipped: the
  expansion is the one of the terms that resolve. When the term set is empty, when no
  term resolves, or when the graph is absent, the expansion is empty.
\<close>

theorem expand_never_fails:
  "(\<exists>e. expand kg terms d = Inr e \<and> inside_graph kg e \<and> distinct e)
   \<and> expand kg [] d = Inr []
   \<and> (list_all (\<lambda>t. \<not> resolves kg t) terms \<longrightarrow> expand kg terms d = Inr [])
   \<and> expand kg terms d = expand kg (filter (resolves kg) terms) d"
proof (cases kg)
  case None
  then show ?thesis by (simp add: expand_def inside_graph_def)
next
  case (Some g)
  show ?thesis unfolding Some by (rule expand_graph)
qed

text \<open>
  On a small graph: the expansion of a known and an unknown term to depth 2, which is the
  expansion of the known term alone; and the empty expansions.
\<close>

lemma example_seeds:
  "remdups (concat (map (resolve example_graph) [lit ''chest pain'', lit ''nausea'']))
     = [(lit ''chest pain'', Symptom)]"
  by (simp add: resolve_def nodes_of_def example_graph_def lit_def)

lemma example_bfs:
  "bfs example_graph (Suc (Suc 0)) [(lit ''chest pain'', Symptom)] [(lit ''chest pain'', Symptom)] []
     = [((lit ''chest pain'', Symptom), lit ''indicates'', (lit ''angina'', Condition)),
        ((lit ''chest pain'', Symptom), lit ''indicates'', (lit ''GERD'', Condition)),
        ((lit ''angina'', Condition), lit ''investigated_by'', (lit ''ECG'', Action))]"
  by (simp add: example_graph_def lit_def)

theorem expand_never_fails_witness:
  "expand (Some example_graph) [lit ''chest pain'', lit ''nausea''] (Suc (Suc 0))
     = Inr [((lit ''chest pain'', Symptom), lit ''indicates'', (lit ''angina'', Condition)),
            ((lit ''chest pain'', Symptom), lit ''indicates'', (lit ''GERD'', Condition)),
            ((lit ''angina'', Condition), lit ''investigated_by'', (lit ''ECG'', Action))]
   \<and> expand (Some example_graph) [lit ''chest pain'', lit ''nausea''] (Suc (Suc 0))
     = expand (Some example_graph) [lit ''chest pain''] (Suc (Suc 0))
   \<and> \<not> resolves (Some example_graph) (lit ''nausea'')
   \<and> expand (Some example_graph) [lit ''nausea''] (Suc (Suc 0)) = Inr []
   \<and> expand (Some example_graph) [] (Suc (Suc 0)) = Inr []
   \<and> expand None [lit ''chest pain''] (Suc (Suc 0)) = Inr []"
proof -
  have unknown: "\<not> resolves (Some example_graph) (lit ''nausea'')"
    by (simp add: resolves_def resolve_def nodes_of_def example_graph_def lit_def)
  have known: "resolves (Some example_graph) (lit ''chest pain'')"
    by (simp add: resolves_def resolve_def nodes_of_def example_graph_def lit_def)
  have two: "expand (Some example_graph) [lit ''chest pain'', lit ''nausea''] (Suc (Suc 0))
     = Inr [((lit ''chest pain'', Symptom), lit ''indicates'', (lit ''angina'', Condition)),
            ((lit ''chest pain'', Symptom), lit ''indicates'', (lit ''GERD'', Condition)),
            ((lit ''angina'', Condition), lit ''investigated_by'', (lit ''ECG'', Action))]"
    by (simp only: expand_def option.case example_seeds Let_def example_bfs)
  have skipped: "expand (Some example_graph) [lit ''chest pain'', lit ''nausea''] (Suc (Suc 0))
     = expand (Some example_graph) [lit ''chest pain''] (Suc (Suc 0))"
    using expand_never_fails
      [of "Some example_graph" "[lit ''chest pain'', lit ''nausea'']" "Suc (Suc 0)"]
      unknown known
    by (simp only: filter.simps if_True if_False)
  have none: "expand (Some example_graph) [lit ''nausea''] (Suc (Suc 0)) = Inr []"
    using expand_never_fails [of "Some example_graph" "[lit ''nausea'']" "Suc (Suc 0)"] unknown
    by simp
  have empty: "expand (Some example_graph) [] (Suc (Suc 0)) = Inr []"
    using expand_never_fails [of "Some example_graph" "[]" "Suc (Suc 0)"] by simp
  have absent: "expand None [lit ''chest pain''] (Suc (Suc 0)) = Inr []"
    using expand_never_fails [of None "[lit ''chest pain'']" "Suc (Suc 0)"]
    by (simp add: resolves_def)
  show ?thesis
    by (intro conjI) (rule two, rule skipped, rule unknown, rule none, rule empty, rule absent)
qed

section \<open>Properties of the Task Executor\<close>










end
